theory Spec2Isabelle
  imports Complex_Main
begin

section \<open>Simulated order execution (tensortrade/oms/services/execution/simulated.py)\<close>

text \<open>
  The module has three functions: \<^verbatim>\<open>execute_buy_order\<close>, \<^verbatim>\<open>execute_sell_order\<close> and
  \<^verbatim>\<open>execute_order\<close>, which prints a few debugging lines in live mode and dispatches on the
  side of the order.

  Conventions of the embedding:
  \<^item> Prices, rates and amounts are exact rationals (\<open>rat\<close>), and the arithmetic of the two
    side procedures is exact. The debugging line of live mode converts to \<^verbatim>\<open>float\<close>
    explicitly; there a float is finite, infinite or not a number, and how a number or a
    quotient rounds to a float is a parameter.
  \<^item> A call either raises or returns: \<open>'a outcome\<close>. Every function returns its outcome
    together with the world it leaves behind.
  \<^item> The objects the functions mutate (the order and the two wallets) are the fields of a
    \<open>World\<close> record. Its \<open>calls\<close> field lists, in call order, the calls made to
    \<^verbatim>\<open>logging.warning\<close>, \<^verbatim>\<open>Order.cancel\<close> and \<^verbatim>\<open>Wallet.transfer\<close>; nothing reads it.
  \<^item> \<^verbatim>\<open>Quantity.contain\<close>, \<^verbatim>\<open>Order.cancel\<close> and \<^verbatim>\<open>Wallet.transfer\<close> are defined outside
    this module; they are fields of an \<open>Env\<close> record that every function takes, and so
    is the rounding of floats.
  \<^item> What \<^verbatim>\<open>print\<close> and \<^verbatim>\<open>pprint\<close> write to standard output is not modelled; the
    exception the printed expression can raise is.
\<close>

subsection \<open>Data\<close>

datatype TradeType = LIMIT | MARKET

datatype TradeSide = BUY | SELL

datatype OrderStatus = OPEN | PARTIALLY_FILLED | FILLED | CANCELLED

datatype error = ZeroDivisionError | OverflowError | ValueError | InsufficientBalance

text \<open>A Python \<^verbatim>\<open>float\<close>: a finite value (0.0 and -0.0 are \<open>Finite 0\<close>), an infinity or a
  NaN.\<close>

datatype pyfloat = Finite rat | Infinite | NaN

datatype 'a outcome = Raise error | Return 'a

record Instrument =
  symbol :: string
  precision :: int

text \<open>\<^verbatim>\<open>Quantity.size\<close> is the field \<open>size'\<close>, \<^verbatim>\<open>Order.id\<close> the field \<open>id'\<close>.\<close>

record Quantity =
  size' :: rat
  instrument :: Instrument

record 'p Order =
  id' :: string
  type :: TradeType
  side :: "TradeSide option"
  price :: rat
  price_online :: rat
  quantity :: Quantity
  remaining :: Quantity
  exchange_pair :: 'p
  status :: OrderStatus

record ExchangeOptions =
  commission :: rat

record Clock =
  step :: int

text \<open>The value \<^verbatim>\<open>Wallet.transfer\<close> returns; the functions read these three fields.\<close>

record Transfer =
  quantity :: Quantity
  price :: rat
  commission :: Quantity

record 'p Trade =
  order_id :: string
  step :: int
  exchange_pair :: 'p
  side :: TradeSide
  trade_type :: TradeType
  quantity :: Quantity
  price :: rat
  commission :: Quantity

text \<open>
  One constructor for each external call, with the arguments the call receives:
  \<open>WalletTransfer source target quantity commission exchange_pair reason t_signal\<close>.
\<close>

datatype ('p, 'w) Call =
    LoggingWarning string
  | OrderCancel string
  | WalletTransfer 'w 'w Quantity Quantity 'p string bool

text \<open>
  The collaborators. \<open>contain\<close> converts a quantity into the terms of an exchange pair.
  \<open>cancel order reason base_wallet quote_wallet\<close> is what \<^verbatim>\<open>order.cancel(reason)\<close> leaves
  behind: the order, and the two wallets, which the order can reach and the cancellation
  may change (nothing in this module says that it leaves them alone). \<open>transfer\<close> returns
  the transfer record with the new source and the new target wallet, or raises and leaves
  both wallets as they were (the atomicity contract of the transfer primitive).
  \<open>float_round x\<close> is the float nearest to a number \<open>x\<close> other than zero: it can be
  \<open>Finite 0\<close> (underflow) or \<open>Infinite\<close> (overflow). \<open>float_div a b\<close> is the rounded
  quotient of two floats, for a divisor other than zero.
\<close>

record ('p, 'w) Env =
  contain :: "Quantity \<Rightarrow> 'p \<Rightarrow> bool \<Rightarrow> Quantity"
  cancel :: "'p Order \<Rightarrow> string \<Rightarrow> 'w \<Rightarrow> 'w \<Rightarrow> 'p Order \<times> 'w \<times> 'w"
  transfer :: "'w \<Rightarrow> 'w \<Rightarrow> Quantity \<Rightarrow> Quantity \<Rightarrow> 'p \<Rightarrow> string \<Rightarrow> bool
                 \<Rightarrow> error + (Transfer \<times> 'w \<times> 'w)"
  float_round :: "rat \<Rightarrow> pyfloat"
  float_div :: "pyfloat \<Rightarrow> pyfloat \<Rightarrow> pyfloat"

record ('p, 'w) World =
  order :: "'p Order"
  base_wallet :: 'w
  quote_wallet :: 'w
  calls :: "('p, 'w) Call list"

subsection \<open>Quantity arithmetic and the side of an order\<close>

definition quantity_rmul :: "rat \<Rightarrow> Quantity \<Rightarrow> Quantity" where
  \<comment> \<open>Modelled from the spec: the class \<^verbatim>\<open>Quantity\<close> is not in this module. A number times
      a quantity ``multiplies filled amount by rate, result instrument = filled's
      instrument''.\<close>
  "quantity_rmul r q = q\<lparr>size' := r * size' q\<rparr>"

definition quantity_sub :: "Quantity \<Rightarrow> Quantity \<Rightarrow> Quantity" where
  \<comment> \<open>Modelled from the spec: the class \<^verbatim>\<open>Quantity\<close> is not in this module.
      ``net = filled - commission'', in the instrument of the left operand.\<close>
  "quantity_sub a b = a\<lparr>size' := size' a - size' b\<rparr>"

definition is_buy :: "'p Order \<Rightarrow> bool" where
  \<comment> \<open>Modelled from the spec: the class \<^verbatim>\<open>Order\<close> is not in this module. The side
      classification of an order is buy, sell or neither.\<close>
  "is_buy ord = (Order.side ord = Some BUY)"

definition is_sell :: "'p Order \<Rightarrow> bool" where
  \<comment> \<open>Modelled from the spec: the class \<^verbatim>\<open>Order\<close> is not in this module. The side
      classification of an order is buy, sell or neither.\<close>
  "is_sell ord = (Order.side ord = Some SELL)"

subsection \<open>The module's functions\<close>

definition COMMISSION_WARNING :: string where
  "COMMISSION_WARNING = ''Commission is less than instrument precision. Canceling order. '' @
     ''Consider defining a custom instrument with a higher precision.''"

text \<open>
  Lines 40 to 53 of \<^verbatim>\<open>execute_buy_order\<close>: the value of the local variable \<^verbatim>\<open>filled\<close>.
  \<open>Return None\<close> is the early \<^verbatim>\<open>return None\<close> of an ineligible limit order; the division
  raises when \<^verbatim>\<open>max(current_price, order.price)\<close> is zero.
\<close>

definition buy_filled ::
  "('p, 'w) Env \<Rightarrow> 'p Order \<Rightarrow> rat \<Rightarrow> bool \<Rightarrow> Quantity option outcome" where
  "buy_filled env ord current_price t_signal =
    (if t_signal then
       if type ord = LIMIT \<and> Order.price ord < current_price then Return None
       else
         let filled = contain env (remaining ord) (Order.exchange_pair ord) t_signal in
         if type ord = MARKET then
           if max current_price (Order.price ord) = 0 then Raise ZeroDivisionError
           else
             let scale = Order.price ord / max current_price (Order.price ord) in
             Return (Some (quantity_rmul scale filled))
         else Return (Some filled)
     else
       if type ord = LIMIT \<and> price_online ord < current_price then Return None
       else
         let filled = contain env (remaining ord) (Order.exchange_pair ord) t_signal in
         if type ord = MARKET then
           if max current_price (price_online ord) = 0 then Raise ZeroDivisionError
           else
             let scale = price_online ord / max current_price (price_online ord) in
             Return (Some (quantity_rmul scale filled))
         else Return (Some filled))"

definition execute_buy_order ::
  "('p, 'w) Env \<Rightarrow> ('p, 'w) World \<Rightarrow> rat \<Rightarrow> ExchangeOptions \<Rightarrow> Clock \<Rightarrow> bool
     \<Rightarrow> 'p Trade option outcome \<times> ('p, 'w) World" where
  "execute_buy_order env w current_price options clock t_signal =
    (case buy_filled env (order w) current_price t_signal of
       Raise e \<Rightarrow> (Raise e, w)
     | Return None \<Rightarrow> (Return None, w)
     | Return (Some filled) \<Rightarrow>
         let commission' = quantity_rmul (ExchangeOptions.commission options) filled;
             quantity' = quantity_sub filled commission'
         in
         if size' commission' < 10 powi (- precision (instrument quantity')) then
           (case cancel env (order w) ''COMMISSION IS LESS THAN PRECISION.''
                   (base_wallet w) (quote_wallet w) of
              (order', base', quote') \<Rightarrow>
                (Return None,
                 w\<lparr>order := order', base_wallet := base', quote_wallet := quote',
                   calls := calls w @ [LoggingWarning COMMISSION_WARNING,
                                       OrderCancel ''COMMISSION IS LESS THAN PRECISION.'']\<rparr>))
         else
           let call = WalletTransfer (base_wallet w) (quote_wallet w) quantity' commission'
                        (Order.exchange_pair (order w)) ''BUY'' t_signal
           in
           (case transfer env (base_wallet w) (quote_wallet w) quantity' commission'
                  (Order.exchange_pair (order w)) ''BUY'' t_signal of
              Inl e \<Rightarrow> (Raise e, w\<lparr>calls := calls w @ [call]\<rparr>)
            | Inr (transfer', source, target) \<Rightarrow>
               (Return (Some \<lparr>order_id = id' (order w),
                              step = Clock.step clock,
                              exchange_pair = Order.exchange_pair (order w),
                              side = BUY,
                              trade_type = type (order w),
                              quantity = Transfer.quantity transfer',
                              price = Transfer.price transfer',
                              commission = Transfer.commission transfer'\<rparr>),
                w\<lparr>base_wallet := source, quote_wallet := target,
                  calls := calls w @ [call]\<rparr>)))"

text \<open>Lines 117 to 124 of \<^verbatim>\<open>execute_sell_order\<close>: the value of \<^verbatim>\<open>filled\<close>.\<close>

definition sell_filled ::
  "('p, 'w) Env \<Rightarrow> 'p Order \<Rightarrow> rat \<Rightarrow> bool \<Rightarrow> Quantity option outcome" where
  "sell_filled env ord current_price t_signal =
    (if (if t_signal then type ord = LIMIT \<and> Order.price ord > current_price
         else type ord = LIMIT \<and> price_online ord > current_price)
     then Return None
     else Return (Some (contain env (remaining ord) (Order.exchange_pair ord) t_signal)))"

definition execute_sell_order ::
  "('p, 'w) Env \<Rightarrow> ('p, 'w) World \<Rightarrow> rat \<Rightarrow> ExchangeOptions \<Rightarrow> Clock \<Rightarrow> bool
     \<Rightarrow> 'p Trade option outcome \<times> ('p, 'w) World" where
  "execute_sell_order env w current_price options clock t_signal =
    (case sell_filled env (order w) current_price t_signal of
       Raise e \<Rightarrow> (Raise e, w)
     | Return None \<Rightarrow> (Return None, w)
     | Return (Some filled) \<Rightarrow>
         let commission' = quantity_rmul (ExchangeOptions.commission options) filled;
             quantity' = quantity_sub filled commission'
         in
         if size' commission' < 10 powi (- precision (instrument quantity')) then
           (case cancel env (order w) ''COMMISSION IS LESS THAN PRECISION.''
                   (base_wallet w) (quote_wallet w) of
              (order', base', quote') \<Rightarrow>
                (Return None,
                 w\<lparr>order := order', base_wallet := base', quote_wallet := quote',
                   calls := calls w @ [LoggingWarning COMMISSION_WARNING,
                                       OrderCancel ''COMMISSION IS LESS THAN PRECISION.'']\<rparr>))
         else
           let call = WalletTransfer (quote_wallet w) (base_wallet w) quantity' commission'
                        (Order.exchange_pair (order w)) ''SELL'' t_signal
           in
           (case transfer env (quote_wallet w) (base_wallet w) quantity' commission'
                  (Order.exchange_pair (order w)) ''SELL'' t_signal of
              Inl e \<Rightarrow> (Raise e, w\<lparr>calls := calls w @ [call]\<rparr>)
            | Inr (transfer', source, target) \<Rightarrow>
               (Return (Some \<lparr>order_id = id' (order w),
                              step = Clock.step clock,
                              exchange_pair = Order.exchange_pair (order w),
                              side = SELL,
                              trade_type = type (order w),
                              quantity = Transfer.quantity transfer',
                              price = Transfer.price transfer',
                              commission = Transfer.commission transfer'\<rparr>),
                w\<lparr>quote_wallet := source, base_wallet := target,
                  calls := calls w @ [call]\<rparr>)))"

text \<open>
  Line 192, \<^verbatim>\<open>int(float(order.quantity.size)/float(order.price_online))\<close>.
  \<^verbatim>\<open>float\<close> of zero is 0.0 and of another number its rounding; the division of floats
  raises \<^verbatim>\<open>ZeroDivisionError\<close> when the divisor is 0.0, whatever the dividend; \<^verbatim>\<open>int\<close>
  truncates a finite float towards zero and raises \<^verbatim>\<open>OverflowError\<close> on an infinity and
  \<^verbatim>\<open>ValueError\<close> on a NaN.
\<close>

definition py_float :: "('p, 'w) Env \<Rightarrow> rat \<Rightarrow> pyfloat" where
  "py_float env x = (if x = 0 then Finite 0 else float_round env x)"

definition py_int :: "pyfloat \<Rightarrow> int outcome" where
  "py_int x =
    (case x of
       Finite r \<Rightarrow> Return (if 0 \<le> r then \<lfloor>r\<rfloor> else \<lceil>r\<rceil>)
     | Infinite \<Rightarrow> Raise OverflowError
     | NaN \<Rightarrow> Raise ValueError)"

definition debug_units :: "('p, 'w) Env \<Rightarrow> 'p Order \<Rightarrow> int outcome" where
  "debug_units env ord =
    (let dividend = py_float env (size' (Order.quantity ord));
         divisor = py_float env (price_online ord)
     in
     if divisor = Finite 0 then Raise ZeroDivisionError
     else py_int (float_div env dividend divisor))"

definition dispatch ::
  "('p, 'w) Env \<Rightarrow> ('p, 'w) World \<Rightarrow> rat \<Rightarrow> ExchangeOptions \<Rightarrow> Clock \<Rightarrow> bool
     \<Rightarrow> 'p Trade option outcome \<times> ('p, 'w) World" where
  \<comment> \<open>Lines 202 to 209 of \<^verbatim>\<open>execute_order\<close>.\<close>
  "dispatch env w current_price options clock t_signal =
    (if is_buy (order w) then execute_buy_order env w current_price options clock t_signal
     else if is_sell (order w) then execute_sell_order env w current_price options clock t_signal
     else (Return None, w))"

definition execute_order ::
  "('p, 'w) Env \<Rightarrow> ('p, 'w) World \<Rightarrow> rat \<Rightarrow> ExchangeOptions \<Rightarrow> Clock \<Rightarrow> bool
     \<Rightarrow> 'p Trade option outcome \<times> ('p, 'w) World" where
  "execute_order env w current_price options clock t_signal =
    (if \<not> t_signal then
       case debug_units env (order w) of
         Raise e \<Rightarrow> (Raise e, w)
       | Return units \<Rightarrow> dispatch env w current_price options clock t_signal
     else dispatch env w current_price options clock t_signal)"

subsection \<open>Notions the statements use\<close>

definition chosen_price :: "'p Order \<Rightarrow> bool \<Rightarrow> rat" where
  \<comment> \<open>The specification's chosen price: \<^verbatim>\<open>order.price\<close> in simulated mode,
      \<^verbatim>\<open>order.price_online\<close> in live mode.\<close>
  "chosen_price ord t_signal = (if t_signal then Order.price ord else price_online ord)"

definition new_calls :: "('p, 'w) World \<Rightarrow> ('p, 'w) World \<Rightarrow> ('p, 'w) Call list" where
  \<comment> \<open>The external calls made on the way from the world \<open>w\<close> to the world \<open>w'\<close>.\<close>
  "new_calls w w' = drop (length (calls w)) (calls w')"

subsection \<open>Sample inputs\<close>

text \<open>
  A sample environment to run the functions on. A wallet has a free balance and an amount
  that orders have locked. \<open>contain\<close> returns the quantity as it is; \<open>cancel\<close> sets the
  status of the order and releases what is locked in the base wallet into its balance;
  \<open>transfer\<close> debits quantity and commission from the source, credits the quantity to the
  target and realizes what it was asked for at the price 0.07; floats do not round.
\<close>

record SampleWallet =
  balance :: rat
  locked :: rat

definition DOGE :: Instrument where
  "DOGE = \<lparr>symbol = ''DOGE'', precision = 8\<rparr>"

definition sample_env :: "(string, SampleWallet) Env" where
  "sample_env =
    \<lparr>contain = (\<lambda>q pair t_signal. q),
     cancel = (\<lambda>ord reason base quote.
       (ord\<lparr>status := CANCELLED\<rparr>,
        base\<lparr>balance := balance base + locked base, locked := 0\<rparr>,
        quote)),
     transfer = (\<lambda>source target q cm pair reason t_signal.
       if balance source < size' q + size' cm then Inl InsufficientBalance
       else Inr (\<lparr>Transfer.quantity = q, Transfer.price = 7 / 100, Transfer.commission = cm\<rparr>,
                 source\<lparr>balance := balance source - (size' q + size' cm)\<rparr>,
                 target\<lparr>balance := balance target + size' q\<rparr>)),
     float_round = Finite,
     float_div = (\<lambda>a b.
       case (a, b) of
         (Finite x, Finite y) \<Rightarrow> Finite (x / y)
       | (Finite x, Infinite) \<Rightarrow> Finite 0
       | (Infinite, Finite y) \<Rightarrow> Infinite
       | _ \<Rightarrow> NaN)\<rparr>"

definition sample_order :: "TradeSide option \<Rightarrow> TradeType \<Rightarrow> rat \<Rightarrow> rat \<Rightarrow> string Order" where
  "sample_order sd ty p p_online =
    \<lparr>id' = ''order-1'', type = ty, Order.side = sd, Order.price = p, price_online = p_online,
     Order.quantity = \<lparr>size' = 1, instrument = DOGE\<rparr>,
     remaining = \<lparr>size' = 1, instrument = DOGE\<rparr>,
     Order.exchange_pair = ''DOGE/USDT'', status = OPEN\<rparr>"

definition sample_world :: "string Order \<Rightarrow> (string, SampleWallet) World" where
  "sample_world ord =
    \<lparr>order = ord,
     base_wallet = \<lparr>balance = 100, locked = 1\<rparr>,
     quote_wallet = \<lparr>balance = 50, locked = 0\<rparr>,
     calls = []\<rparr>"

definition sample_options :: "rat \<Rightarrow> ExchangeOptions" where
  "sample_options rate = \<lparr>ExchangeOptions.commission = rate\<rparr>"

definition sample_clock :: Clock where
  "sample_clock = \<lparr>Clock.step = 5\<rparr>"

section \<open>Properties\<close>

subsection \<open>Unfolding the functions\<close>

lemmas exec_defs = execute_order_def dispatch_def execute_buy_order_def execute_sell_order_def
  debug_units_def py_float_def py_int_def Let_def

lemmas fill_defs = buy_filled_def sell_filled_def quantity_rmul_def quantity_sub_def
  is_buy_def is_sell_def chosen_price_def new_calls_def

lemmas sample_defs = sample_env_def sample_order_def sample_world_def sample_options_def
  sample_clock_def DOGE_def

text \<open>The debugging line of live mode: a zero \<^verbatim>\<open>price_online\<close> is a zero divisor, whatever
  the rounding of floats.\<close>

lemma debug_units_zero:
  "price_online ord = 0 \<Longrightarrow> debug_units env ord = Raise ZeroDivisionError"
  by (simp add: debug_units_def py_float_def)

lemma execute_order_dispatch:
  "t_signal \<or> (\<exists>n. debug_units env (order w) = Return n) \<Longrightarrow>
   execute_order env w current_price options clock t_signal
     = dispatch env w current_price options clock t_signal"
  by (auto simp add: execute_order_def)

lemma execute_order_debug_raise:
  "\<not> t_signal \<Longrightarrow> debug_units env (order w) = Raise e \<Longrightarrow>
   execute_order env w current_price options clock t_signal = (Raise e, w)"
  by (simp add: execute_order_def)

lemma dispatch_buy:
  "is_buy (order w) \<Longrightarrow> dispatch env w current_price options clock t_signal
     = execute_buy_order env w current_price options clock t_signal"
  by (simp add: dispatch_def)

lemma dispatch_sell:
  "is_sell (order w) \<Longrightarrow> dispatch env w current_price options clock t_signal
     = execute_sell_order env w current_price options clock t_signal"
  by (auto simp add: dispatch_def is_buy_def is_sell_def)

lemma dispatch_neither:
  "\<not> is_buy (order w) \<Longrightarrow> \<not> is_sell (order w) \<Longrightarrow>
   dispatch env w current_price options clock t_signal = (Return None, w)"
  by (simp add: dispatch_def)

lemma execute_buy_order_filled:
  "buy_filled env (order w) current_price t_signal = Return (Some filled) \<Longrightarrow>
   execute_buy_order env w current_price options clock t_signal =
    (let commission' = quantity_rmul (ExchangeOptions.commission options) filled;
         quantity' = quantity_sub filled commission'
     in
     if size' commission' < 10 powi (- precision (instrument quantity')) then
       (case cancel env (order w) ''COMMISSION IS LESS THAN PRECISION.''
               (base_wallet w) (quote_wallet w) of
          (order', base', quote') \<Rightarrow>
            (Return None,
             w\<lparr>order := order', base_wallet := base', quote_wallet := quote',
               calls := calls w @ [LoggingWarning COMMISSION_WARNING,
                                   OrderCancel ''COMMISSION IS LESS THAN PRECISION.'']\<rparr>))
     else
       (case transfer env (base_wallet w) (quote_wallet w) quantity' commission'
              (Order.exchange_pair (order w)) ''BUY'' t_signal of
          Inl e \<Rightarrow>
            (Raise e,
             w\<lparr>calls := calls w @ [WalletTransfer (base_wallet w) (quote_wallet w) quantity'
                commission' (Order.exchange_pair (order w)) ''BUY'' t_signal]\<rparr>)
        | Inr (transfer', source, target) \<Rightarrow>
            (Return (Some \<lparr>order_id = id' (order w),
                           step = Clock.step clock,
                           exchange_pair = Order.exchange_pair (order w),
                           side = BUY,
                           trade_type = type (order w),
                           quantity = Transfer.quantity transfer',
                           price = Transfer.price transfer',
                           commission = Transfer.commission transfer'\<rparr>),
             w\<lparr>base_wallet := source, quote_wallet := target,
               calls := calls w @ [WalletTransfer (base_wallet w) (quote_wallet w) quantity'
                 commission' (Order.exchange_pair (order w)) ''BUY'' t_signal]\<rparr>)))"
  by (simp add: execute_buy_order_def Let_def)

lemma execute_buy_order_not_filled:
  "buy_filled env (order w) current_price t_signal = Return None \<Longrightarrow>
   execute_buy_order env w current_price options clock t_signal = (Return None, w)"
  by (simp add: execute_buy_order_def)

lemma execute_sell_order_filled:
  "sell_filled env (order w) current_price t_signal = Return (Some filled) \<Longrightarrow>
   execute_sell_order env w current_price options clock t_signal =
    (let commission' = quantity_rmul (ExchangeOptions.commission options) filled;
         quantity' = quantity_sub filled commission'
     in
     if size' commission' < 10 powi (- precision (instrument quantity')) then
       (case cancel env (order w) ''COMMISSION IS LESS THAN PRECISION.''
               (base_wallet w) (quote_wallet w) of
          (order', base', quote') \<Rightarrow>
            (Return None,
             w\<lparr>order := order', base_wallet := base', quote_wallet := quote',
               calls := calls w @ [LoggingWarning COMMISSION_WARNING,
                                   OrderCancel ''COMMISSION IS LESS THAN PRECISION.'']\<rparr>))
     else
       (case transfer env (quote_wallet w) (base_wallet w) quantity' commission'
              (Order.exchange_pair (order w)) ''SELL'' t_signal of
          Inl e \<Rightarrow>
            (Raise e,
             w\<lparr>calls := calls w @ [WalletTransfer (quote_wallet w) (base_wallet w) quantity'
                commission' (Order.exchange_pair (order w)) ''SELL'' t_signal]\<rparr>)
        | Inr (transfer', source, target) \<Rightarrow>
            (Return (Some \<lparr>order_id = id' (order w),
                           step = Clock.step clock,
                           exchange_pair = Order.exchange_pair (order w),
                           side = SELL,
                           trade_type = type (order w),
                           quantity = Transfer.quantity transfer',
                           price = Transfer.price transfer',
                           commission = Transfer.commission transfer'\<rparr>),
             w\<lparr>quote_wallet := source, base_wallet := target,
               calls := calls w @ [WalletTransfer (quote_wallet w) (base_wallet w) quantity'
                 commission' (Order.exchange_pair (order w)) ''SELL'' t_signal]\<rparr>)))"
  by (simp add: execute_sell_order_def Let_def)

lemma execute_sell_order_not_filled:
  "sell_filled env (order w) current_price t_signal = Return None \<Longrightarrow>
   execute_sell_order env w current_price options clock t_signal = (Return None, w)"
  by (simp add: execute_sell_order_def)

text \<open>The two modes of a side procedure differ in the price field they read only.\<close>

lemma sell_filled_cases:
  "sell_filled env ord current_price t_signal =
    (if type ord = LIMIT \<and> current_price < chosen_price ord t_signal then Return None
     else Return (Some (contain env (remaining ord) (Order.exchange_pair ord) t_signal)))"
  by (simp add: sell_filled_def chosen_price_def)

lemma buy_filled_limit:
  "type ord = LIMIT \<Longrightarrow>
   buy_filled env ord current_price t_signal =
    (if chosen_price ord t_signal < current_price then Return None
     else Return (Some (contain env (remaining ord) (Order.exchange_pair ord) t_signal)))"
  by (simp add: buy_filled_def chosen_price_def Let_def)

lemma buy_filled_market:
  "type ord = MARKET \<Longrightarrow>
   buy_filled env ord current_price t_signal =
    (if max current_price (chosen_price ord t_signal) = 0 then Raise ZeroDivisionError
     else Return (Some (quantity_rmul
            (chosen_price ord t_signal / max current_price (chosen_price ord t_signal))
            (contain env (remaining ord) (Order.exchange_pair ord) t_signal))))"
  by (simp add: buy_filled_def chosen_price_def Let_def)

lemma scale_min:
  fixes p c :: rat
  assumes "0 < c"
  shows "p / max c p = min 1 (p / c)"
proof (cases "p \<le> c")
  case True
  then have "p / c \<le> 1" using assms by (simp add: divide_le_eq)
  with True show ?thesis by (simp add: max_def min_def)
next
  case False
  then have "c < p" by simp
  then have "1 < p / c" using assms by (simp add: less_divide_eq)
  with \<open>c < p\<close> assms show ?thesis by (simp add: max_def min_def)
qed

text \<open>A call only appends to the list of external calls.\<close>

lemma execute_order_calls:
  "execute_order env w current_price options clock t_signal = (out, w') \<Longrightarrow>
   calls w' = calls w @ new_calls w w'"
  by (auto simp: exec_defs new_calls_def
      split: outcome.splits option.splits sum.splits if_splits prod.splits)

text \<open>The sample runs the closed theorems below refer to.\<close>

lemma sample_buy_market_run:
  "execute_order sample_env (sample_world (sample_order (Some BUY) MARKET (7 / 100) (7 / 100)))
     (7 / 100) (sample_options (1 / 1000)) sample_clock True =
   (Return (Some \<lparr>order_id = ''order-1'', step = 5, exchange_pair = ''DOGE/USDT'',
       side = BUY, trade_type = MARKET,
       quantity = \<lparr>size' = 999 / 1000, instrument = DOGE\<rparr>, price = 7 / 100,
       commission = \<lparr>size' = 1 / 1000, instrument = DOGE\<rparr>\<rparr>),
    \<lparr>order = sample_order (Some BUY) MARKET (7 / 100) (7 / 100),
     base_wallet = \<lparr>balance = 99, locked = 1\<rparr>,
     quote_wallet = \<lparr>balance = 50999 / 1000, locked = 0\<rparr>,
     calls = [WalletTransfer \<lparr>balance = 100, locked = 1\<rparr> \<lparr>balance = 50, locked = 0\<rparr>
                \<lparr>size' = 999 / 1000, instrument = DOGE\<rparr>
                \<lparr>size' = 1 / 1000, instrument = DOGE\<rparr> ''DOGE/USDT'' ''BUY'' True]\<rparr>)"
  by (simp add: exec_defs fill_defs sample_defs)

lemma sample_sell_limit_run:
  "execute_order sample_env (sample_world (sample_order (Some SELL) LIMIT (7 / 100) (6 / 100)))
     (7 / 100) (sample_options (4 / 10000)) sample_clock True =
   (Return (Some \<lparr>order_id = ''order-1'', step = 5, exchange_pair = ''DOGE/USDT'',
       side = SELL, trade_type = LIMIT,
       quantity = \<lparr>size' = 9996 / 10000, instrument = DOGE\<rparr>, price = 7 / 100,
       commission = \<lparr>size' = 4 / 10000, instrument = DOGE\<rparr>\<rparr>),
    \<lparr>order = sample_order (Some SELL) LIMIT (7 / 100) (6 / 100),
     base_wallet = \<lparr>balance = 100 + 9996 / 10000, locked = 1\<rparr>,
     quote_wallet = \<lparr>balance = 49, locked = 0\<rparr>,
     calls = [WalletTransfer \<lparr>balance = 50, locked = 0\<rparr> \<lparr>balance = 100, locked = 1\<rparr>
                \<lparr>size' = 9996 / 10000, instrument = DOGE\<rparr>
                \<lparr>size' = 4 / 10000, instrument = DOGE\<rparr> ''DOGE/USDT'' ''SELL'' True]\<rparr>)"
  by (simp add: exec_defs fill_defs sample_defs)


subsection \<open>The precision guard\<close>

text \<open>
  Claim C1, as amended. Take a call of \<open>execute_order\<close> that reaches the precision guard
  of its side procedure: the call gets past the debugging line (always in simulated mode,
  in live mode when the line does not raise, for which \<^verbatim>\<open>order.price_online\<close> must not
  be zero), the order is a buy or a sell, it passes eligibility and \<open>filled\<close> is computed.
  If the amount of the commission, \<open>rate * filled\<close>, is strictly smaller than \<open>10\<close> to the
  power \<open>- p\<close>, where \<open>p\<close> is the precision of the instrument of the net quantity
  \<open>filled - commission\<close>, then the call logs the warning, cancels the order with the reason
  \<^verbatim>\<open>COMMISSION IS LESS THAN PRECISION.\<close> (the reason ends with a full stop), makes no
  other external call, so no transfer, and returns no trade; the order and the wallets
  are what the cancellation leaves.
\<close>

theorem precision_guard_cancels_order:
  assumes reach: "t_signal \<or> (\<exists>n. debug_units env (order w) = Return n)"
    and fill: "(is_buy (order w) \<and>
                  buy_filled env (order w) current_price t_signal = Return (Some filled))
             \<or> (is_sell (order w) \<and>
                  sell_filled env (order w) current_price t_signal = Return (Some filled))"
    and small: "size' (quantity_rmul (ExchangeOptions.commission options) filled)
                  < 10 powi (- precision (instrument (quantity_sub filled
                      (quantity_rmul (ExchangeOptions.commission options) filled))))"
  shows "execute_order env w current_price options clock t_signal =
           (case cancel env (order w) ''COMMISSION IS LESS THAN PRECISION.''
                   (base_wallet w) (quote_wallet w) of
              (order', base', quote') \<Rightarrow>
                (Return None,
                 w\<lparr>order := order', base_wallet := base', quote_wallet := quote',
                   calls := calls w @ [LoggingWarning COMMISSION_WARNING,
                                       OrderCancel ''COMMISSION IS LESS THAN PRECISION.'']\<rparr>))"
proof -
  have d: "execute_order env w current_price options clock t_signal
             = dispatch env w current_price options clock t_signal"
    using reach by (rule execute_order_dispatch)
  from fill show ?thesis
  proof
    assume "is_buy (order w) \<and>
      buy_filled env (order w) current_price t_signal = Return (Some filled)"
    then show ?thesis
      using small by (simp add: d dispatch_buy execute_buy_order_filled Let_def)
  next
    assume "is_sell (order w) \<and>
      sell_filled env (order w) current_price t_signal = Return (Some filled)"
    then show ?thesis
      using small by (simp add: d dispatch_sell execute_sell_order_filled Let_def)
  qed
qed

text \<open>
  The second scenario of the specification: one DOGE remaining, precision 8, a market buy
  at the current price 0.07 and the rate \<open>10\<close> to the power \<open>- 10\<close>.
\<close>

theorem precision_guard_cancels_order_witness:
  "execute_order sample_env (sample_world (sample_order (Some BUY) MARKET (7 / 100) (7 / 100)))
     (7 / 100) (sample_options (1 / 10000000000)) sample_clock True =
   (Return None,
    \<lparr>order = (sample_order (Some BUY) MARKET (7 / 100) (7 / 100))\<lparr>status := CANCELLED\<rparr>,
     base_wallet = \<lparr>balance = 101, locked = 0\<rparr>,
     quote_wallet = \<lparr>balance = 50, locked = 0\<rparr>,
     calls = [LoggingWarning COMMISSION_WARNING,
              OrderCancel ''COMMISSION IS LESS THAN PRECISION.'']\<rparr>)"
proof -
  let ?w = "sample_world (sample_order (Some BUY) MARKET (7 / 100) (7 / 100))"
  let ?filled = "\<lparr>size' = 1, instrument = DOGE\<rparr>"
  have fill: "(is_buy (order ?w) \<and>
                 buy_filled sample_env (order ?w) (7 / 100) True = Return (Some ?filled))
            \<or> (is_sell (order ?w) \<and>
                 sell_filled sample_env (order ?w) (7 / 100) True = Return (Some ?filled))"
    by (simp add: fill_defs sample_defs)
  have small: "size' (quantity_rmul
                 (ExchangeOptions.commission (sample_options (1 / 10000000000))) ?filled)
                  < 10 powi (- precision (instrument (quantity_sub ?filled
                      (quantity_rmul (ExchangeOptions.commission
                         (sample_options (1 / 10000000000))) ?filled))))"
    by (simp add: fill_defs sample_defs)
  show ?thesis
    using precision_guard_cancels_order
      [where t_signal = True and env = sample_env and w = ?w and current_price = "7 / 100"
         and filled = ?filled and options = "sample_options (1 / 10000000000)"
         and clock = sample_clock, OF _ fill small]
    by (simp add: sample_defs)
qed

text \<open>
  Claim C1 as it is written names the reason \<^verbatim>\<open>COMMISSION IS LESS THAN PRECISION\<close>. In
  the scenario above the guard fires, and the one cancellation that is made carries the
  reason with the full stop: no cancellation with the reason of the claim is made.
\<close>

theorem precision_guard_reason_counterexample:
  "is_buy (order (sample_world (sample_order (Some BUY) MARKET (7 / 100) (7 / 100))))
 \<and> buy_filled sample_env
      (order (sample_world (sample_order (Some BUY) MARKET (7 / 100) (7 / 100)))) (7 / 100) True
      = Return (Some \<lparr>size' = 1, instrument = DOGE\<rparr>)
 \<and> size' (quantity_rmul (1 / 10000000000) \<lparr>size' = 1, instrument = DOGE\<rparr>)
      < 10 powi (- precision (instrument (quantity_sub \<lparr>size' = 1, instrument = DOGE\<rparr>
          (quantity_rmul (1 / 10000000000) \<lparr>size' = 1, instrument = DOGE\<rparr>))))
 \<and> calls (snd (execute_order sample_env
        (sample_world (sample_order (Some BUY) MARKET (7 / 100) (7 / 100)))
        (7 / 100) (sample_options (1 / 10000000000)) sample_clock True))
      = [LoggingWarning COMMISSION_WARNING, OrderCancel ''COMMISSION IS LESS THAN PRECISION.'']
 \<and> OrderCancel ''COMMISSION IS LESS THAN PRECISION''
      \<notin> set (calls (snd (execute_order sample_env
            (sample_world (sample_order (Some BUY) MARKET (7 / 100) (7 / 100)))
            (7 / 100) (sample_options (1 / 10000000000)) sample_clock True)))"
  by (simp add: exec_defs fill_defs sample_defs)

subsection \<open>The fill of a market buy\<close>

text \<open>
  Claim C2. For a market order and a current price above zero, the filled quantity that
  \<open>execute_buy_order\<close> computes is the converted remaining amount multiplied by
  \<open>min 1 (chosen_price / current_price)\<close>, where the chosen price is \<^verbatim>\<open>order.price\<close> in
  simulated mode and \<^verbatim>\<open>order.price_online\<close> in live mode. The factor is at most 1, and
  the scaled fill is at most the converted remaining amount; the amount of a quantity is
  never negative, which the last part takes as given for the converted remaining amount.
\<close>

theorem buy_market_fill_scaled:
  assumes "type ord = MARKET" and "0 < current_price"
  shows "buy_filled env ord current_price t_signal =
           Return (Some (quantity_rmul (min 1 (chosen_price ord t_signal / current_price))
             (contain env (remaining ord) (Order.exchange_pair ord) t_signal)))
       \<and> min 1 (chosen_price ord t_signal / current_price) \<le> 1
       \<and> (0 \<le> size' (contain env (remaining ord) (Order.exchange_pair ord) t_signal) \<longrightarrow>
            size' (quantity_rmul (min 1 (chosen_price ord t_signal / current_price))
                    (contain env (remaining ord) (Order.exchange_pair ord) t_signal))
              \<le> size' (contain env (remaining ord) (Order.exchange_pair ord) t_signal))"
proof -
  let ?p = "chosen_price ord t_signal"
  have nz: "max current_price ?p \<noteq> 0" using assms(2) by (simp add: max_def)
  have "buy_filled env ord current_price t_signal =
          Return (Some (quantity_rmul (?p / max current_price ?p)
            (contain env (remaining ord) (Order.exchange_pair ord) t_signal)))"
    using nz by (simp add: buy_filled_market [OF assms(1)])
  then have fill: "buy_filled env ord current_price t_signal =
          Return (Some (quantity_rmul (min 1 (?p / current_price))
            (contain env (remaining ord) (Order.exchange_pair ord) t_signal)))"
    by (simp add: scale_min [OF assms(2)])
  have "min 1 (?p / current_price) * x \<le> x" if "0 \<le> x" for x :: rat
  proof -
    have "min 1 (?p / current_price) * x \<le> 1 * x"
      by (rule mult_right_mono) (use that in simp_all)
    then show ?thesis by simp
  qed
  then show ?thesis using fill by (simp add: quantity_rmul_def)
qed

text \<open>
  A market buy at 0.07 in live mode when the price has risen to 0.14: half of the
  remaining DOGE is filled.
\<close>

theorem buy_market_fill_scaled_witness:
  "type (sample_order (Some BUY) MARKET (5 / 100) (7 / 100)) = MARKET
 \<and> (0 :: rat) < 14 / 100
 \<and> buy_filled sample_env (sample_order (Some BUY) MARKET (5 / 100) (7 / 100)) (14 / 100) False
      = Return (Some \<lparr>size' = 1 / 2, instrument = DOGE\<rparr>)
 \<and> size' (contain sample_env (remaining (sample_order (Some BUY) MARKET (5 / 100) (7 / 100)))
      (Order.exchange_pair (sample_order (Some BUY) MARKET (5 / 100) (7 / 100))) False) = 1"
  using buy_market_fill_scaled [of "sample_order (Some BUY) MARKET (5 / 100) (7 / 100)"
      "14 / 100" sample_env False]
  by (simp add: fill_defs sample_defs)

subsection \<open>An order that is neither a buy nor a sell\<close>

text \<open>
  Claim C9 says that for an order that is neither a buy nor a sell \<open>execute_order\<close>
  returns no trade and changes nothing. The dispatch does so, and so does the call in
  simulated mode. In live mode the debugging line runs first: with a \<^verbatim>\<open>price_online\<close> of
  zero the call raises \<^verbatim>\<open>ZeroDivisionError\<close> and does not return, for the same order
  and the same inputs for which the simulated call returns no trade.
\<close>

theorem neither_side_live_zero_price_raises:
  "\<not> is_buy (order (sample_world (sample_order None MARKET (7 / 100) 0)))
 \<and> \<not> is_sell (order (sample_world (sample_order None MARKET (7 / 100) 0)))
 \<and> execute_order sample_env (sample_world (sample_order None MARKET (7 / 100) 0))
      (7 / 100) (sample_options (1 / 1000)) sample_clock False
    = (Raise ZeroDivisionError, sample_world (sample_order None MARKET (7 / 100) 0))
 \<and> execute_order sample_env (sample_world (sample_order None MARKET (7 / 100) 0))
      (7 / 100) (sample_options (1 / 1000)) sample_clock True
    = (Return None, sample_world (sample_order None MARKET (7 / 100) 0))
 \<and> dispatch sample_env (sample_world (sample_order None MARKET (7 / 100) 0))
      (7 / 100) (sample_options (1 / 1000)) sample_clock False
    = (Return None, sample_world (sample_order None MARKET (7 / 100) 0))"
  by (simp add: exec_defs is_buy_def is_sell_def sample_defs)

subsection \<open>The debugging line of live mode\<close>

text \<open>
  Claim C10. In live mode \<open>execute_order\<close> evaluates
  \<^verbatim>\<open>int(float(order.quantity.size)/float(order.price_online))\<close> before it dispatches on
  the side of the order: when the line raises, the call raises the same error and the
  world is as it was, and when it returns, the call is the dispatch. When
  \<^verbatim>\<open>order.price_online\<close> is zero the line raises \<^verbatim>\<open>ZeroDivisionError\<close>: no eligibility
  check, no transfer and no cancellation has happened. So a live call that returns has a
  \<^verbatim>\<open>price_online\<close> other than zero.
\<close>

theorem live_zero_price_online_raises:
  assumes "\<not> t_signal"
  shows "(price_online (order w) = 0 \<longrightarrow>
            debug_units env (order w) = Raise ZeroDivisionError
          \<and> execute_order env w current_price options clock t_signal
              = (Raise ZeroDivisionError, w))
       \<and> (\<forall>e. debug_units env (order w) = Raise e \<longrightarrow>
            execute_order env w current_price options clock t_signal = (Raise e, w))
       \<and> (\<forall>n. debug_units env (order w) = Return n \<longrightarrow>
            execute_order env w current_price options clock t_signal
              = dispatch env w current_price options clock t_signal)
       \<and> (\<forall>r w'. execute_order env w current_price options clock t_signal = (Return r, w')
            \<longrightarrow> price_online (order w) \<noteq> 0)"
proof (intro conjI allI impI)
  assume z: "price_online (order w) = 0"
  then show "debug_units env (order w) = Raise ZeroDivisionError"
    by (rule debug_units_zero)
  with assms show "execute_order env w current_price options clock t_signal
               = (Raise ZeroDivisionError, w)"
    by (rule execute_order_debug_raise)
next
  fix e
  assume "debug_units env (order w) = Raise e"
  with assms show "execute_order env w current_price options clock t_signal = (Raise e, w)"
    by (rule execute_order_debug_raise)
next
  fix n
  assume "debug_units env (order w) = Return n"
  then show "execute_order env w current_price options clock t_signal
               = dispatch env w current_price options clock t_signal"
    by (simp add: execute_order_def)
next
  fix r w'
  assume ret: "execute_order env w current_price options clock t_signal = (Return r, w')"
  show "price_online (order w) \<noteq> 0"
  proof
    assume "price_online (order w) = 0"
    then have "debug_units env (order w) = Raise ZeroDivisionError"
      by (rule debug_units_zero)
    with assms have "execute_order env w current_price options clock t_signal
                       = (Raise ZeroDivisionError, w)"
      by (rule execute_order_debug_raise)
    with ret show False by simp
  qed
qed

text \<open>
  A limit buy whose live price 0 is below the current price: the dispatch would reject it
  without effect, the live call raises.
\<close>

theorem live_zero_price_online_raises_witness:
  "price_online (order (sample_world (sample_order (Some BUY) LIMIT (7 / 100) 0))) = 0
 \<and> execute_order sample_env (sample_world (sample_order (Some BUY) LIMIT (7 / 100) 0))
      (7 / 100) (sample_options (1 / 1000)) sample_clock False
    = (Raise ZeroDivisionError, sample_world (sample_order (Some BUY) LIMIT (7 / 100) 0))
 \<and> dispatch sample_env (sample_world (sample_order (Some BUY) LIMIT (7 / 100) 0))
      (7 / 100) (sample_options (1 / 1000)) sample_clock False
    = (Return None, sample_world (sample_order (Some BUY) LIMIT (7 / 100) 0))"
  using live_zero_price_online_raises
      [where t_signal = False
         and w = "sample_world (sample_order (Some BUY) LIMIT (7 / 100) 0)"
         and env = sample_env and current_price = "7 / 100"
         and options = "sample_options (1 / 1000)" and clock = sample_clock]
  by (simp add: dispatch_def execute_buy_order_def fill_defs sample_defs)

subsection \<open>Eligibility of limit orders\<close>

text \<open>
  Claim C3. A limit buy that \<open>execute_order\<close> executes (a trade is returned) has a chosen
  limit price at or above the current price, and a limit sell one at or below it; the
  chosen price is \<^verbatim>\<open>order.price\<close> in simulated mode and \<^verbatim>\<open>order.price_online\<close> in live
  mode. An ineligible limit order yields no trade and the world stays as it was: the call
  returns no trade, or, in live mode, it raises in the debugging line when that line
  raises. A market order is never rejected on eligibility: neither side procedure
  takes its early return, and when \<open>execute_order\<close> returns no trade for a market buy or
  sell, the precision guard has cancelled the order.
\<close>

theorem limit_order_eligibility:
  "(type (order w) = LIMIT \<and> is_buy (order w)
      \<and> (\<exists>tr w'. execute_order env w current_price options clock t_signal
                    = (Return (Some tr), w'))
      \<longrightarrow> current_price \<le> chosen_price (order w) t_signal)
 \<and> (type (order w) = LIMIT \<and> is_sell (order w)
      \<and> (\<exists>tr w'. execute_order env w current_price options clock t_signal
                    = (Return (Some tr), w'))
      \<longrightarrow> chosen_price (order w) t_signal \<le> current_price)
 \<and> (type (order w) = LIMIT
      \<and> (is_buy (order w) \<and> chosen_price (order w) t_signal < current_price
         \<or> is_sell (order w) \<and> current_price < chosen_price (order w) t_signal)
      \<longrightarrow> execute_order env w current_price options clock t_signal
            = (if t_signal then Return None
               else case debug_units env (order w) of
                      Raise e \<Rightarrow> Raise e | Return n \<Rightarrow> Return None, w))
 \<and> (type (order w) = MARKET
      \<longrightarrow> buy_filled env (order w) current_price t_signal \<noteq> Return None
        \<and> sell_filled env (order w) current_price t_signal \<noteq> Return None)
 \<and> (type (order w) = MARKET \<and> (is_buy (order w) \<or> is_sell (order w))
      \<and> execute_order env w current_price options clock t_signal = (Return None, w')
      \<longrightarrow> new_calls w w' = [LoggingWarning COMMISSION_WARNING,
                             OrderCancel ''COMMISSION IS LESS THAN PRECISION.''])"
proof -
  have disp: "dispatch env w current_price options clock t_signal = (Return None, w)"
    if "type (order w) = LIMIT"
      and "is_buy (order w) \<and> chosen_price (order w) t_signal < current_price
         \<or> is_sell (order w) \<and> current_price < chosen_price (order w) t_signal"
    using that(2)
  proof
    assume "is_buy (order w) \<and> chosen_price (order w) t_signal < current_price"
    then show ?thesis using that(1)
      by (simp add: dispatch_buy execute_buy_order_not_filled buy_filled_limit)
  next
    assume "is_sell (order w) \<and> current_price < chosen_price (order w) t_signal"
    then show ?thesis using that(1)
      by (simp add: dispatch_sell execute_sell_order_not_filled sell_filled_cases)
  qed
  have inel: "execute_order env w current_price options clock t_signal
            = (if t_signal then Return None
               else case debug_units env (order w) of
                      Raise e \<Rightarrow> Raise e | Return n \<Rightarrow> Return None, w)"
    if "type (order w) = LIMIT"
      and "is_buy (order w) \<and> chosen_price (order w) t_signal < current_price
         \<or> is_sell (order w) \<and> current_price < chosen_price (order w) t_signal"
    using disp [OF that]
    by (cases t_signal) (auto simp: execute_order_def split: outcome.splits)
  have buy: "current_price \<le> chosen_price (order w) t_signal"
    if "type (order w) = LIMIT" "is_buy (order w)"
      "execute_order env w current_price options clock t_signal = (Return (Some tr), w')"
    for tr w'
  proof (rule ccontr)
    assume "\<not> current_price \<le> chosen_price (order w) t_signal"
    then have "chosen_price (order w) t_signal < current_price" by simp
    with inel that show False by (auto split: if_splits outcome.splits)
  qed
  have sell: "chosen_price (order w) t_signal \<le> current_price"
    if "type (order w) = LIMIT" "is_sell (order w)"
      "execute_order env w current_price options clock t_signal = (Return (Some tr), w')"
    for tr w'
  proof (rule ccontr)
    assume "\<not> chosen_price (order w) t_signal \<le> current_price"
    then have "current_price < chosen_price (order w) t_signal" by simp
    with inel that show False by (auto split: if_splits outcome.splits)
  qed
  have market: "buy_filled env (order w) current_price t_signal \<noteq> Return None
        \<and> sell_filled env (order w) current_price t_signal \<noteq> Return None"
    if "type (order w) = MARKET"
    using that by (simp add: buy_filled_market sell_filled_cases)
  have guard: "new_calls w w' = [LoggingWarning COMMISSION_WARNING,
                                 OrderCancel ''COMMISSION IS LESS THAN PRECISION.'']"
    if "type (order w) = MARKET" "is_buy (order w) \<or> is_sell (order w)"
      "execute_order env w current_price options clock t_signal = (Return None, w')"
    using that market
    by (auto simp: exec_defs new_calls_def
        split: outcome.splits option.splits sum.splits if_splits prod.splits)
  from inel buy sell market guard show ?thesis by blast
qed

text \<open>
  A limit buy at 0.05 when the current price is 0.07 is rejected without effect; a limit
  sell at 0.07 when the current price is 0.07 is executed.
\<close>

theorem limit_order_eligibility_witness:
  "type (order (sample_world (sample_order (Some BUY) LIMIT (5 / 100) (5 / 100)))) = LIMIT
 \<and> is_buy (order (sample_world (sample_order (Some BUY) LIMIT (5 / 100) (5 / 100))))
 \<and> chosen_price (order (sample_world (sample_order (Some BUY) LIMIT (5 / 100) (5 / 100)))) True
      < 7 / 100
 \<and> execute_order sample_env (sample_world (sample_order (Some BUY) LIMIT (5 / 100) (5 / 100)))
      (7 / 100) (sample_options (1 / 1000)) sample_clock True
    = (Return None, sample_world (sample_order (Some BUY) LIMIT (5 / 100) (5 / 100)))
 \<and> is_sell (order (sample_world (sample_order (Some SELL) LIMIT (7 / 100) (6 / 100))))
 \<and> fst (execute_order sample_env
      (sample_world (sample_order (Some SELL) LIMIT (7 / 100) (6 / 100)))
      (7 / 100) (sample_options (4 / 10000)) sample_clock True) \<noteq> Return None
 \<and> chosen_price (order (sample_world (sample_order (Some SELL) LIMIT (7 / 100) (6 / 100)))) True
      \<le> 7 / 100"
  using limit_order_eligibility
      [where w = "sample_world (sample_order (Some BUY) LIMIT (5 / 100) (5 / 100))"
         and env = sample_env and current_price = "7 / 100"
         and options = "sample_options (1 / 1000)" and clock = sample_clock
         and t_signal = True]
    limit_order_eligibility
      [where w = "sample_world (sample_order (Some SELL) LIMIT (7 / 100) (6 / 100))"
         and env = sample_env and current_price = "7 / 100"
         and options = "sample_options (4 / 10000)" and clock = sample_clock
         and t_signal = True]
  by (simp add: exec_defs fill_defs sample_defs)

subsection \<open>Commission and net quantity\<close>

text \<open>
  Claim C4. On either side, for an eligible order with filled quantity \<open>filled\<close>, the
  commission is the commission rate times \<open>filled\<close>, in the instrument of \<open>filled\<close>, and
  the net quantity is \<open>filled\<close> minus the commission; when the precision guard lets the
  order through, the one external call of the side procedure is the transfer of that net
  quantity with that commission.
\<close>

theorem commission_and_net_quantity:
  "(let commission' = quantity_rmul (ExchangeOptions.commission options) filled;
        quantity' = quantity_sub filled commission'
    in size' commission' = ExchangeOptions.commission options * size' filled
     \<and> instrument commission' = instrument filled
     \<and> size' quantity' = size' filled - size' commission'
     \<and> instrument quantity' = instrument filled
     \<and> (buy_filled env (order w) current_price t_signal = Return (Some filled)
          \<and> \<not> size' commission' < 10 powi (- precision (instrument quantity'))
        \<longrightarrow> new_calls w (snd (execute_buy_order env w current_price options clock t_signal))
              = [WalletTransfer (base_wallet w) (quote_wallet w) quantity' commission'
                   (Order.exchange_pair (order w)) ''BUY'' t_signal])
     \<and> (sell_filled env (order w) current_price t_signal = Return (Some filled)
          \<and> \<not> size' commission' < 10 powi (- precision (instrument quantity'))
        \<longrightarrow> new_calls w (snd (execute_sell_order env w current_price options clock t_signal))
              = [WalletTransfer (quote_wallet w) (base_wallet w) quantity' commission'
                   (Order.exchange_pair (order w)) ''SELL'' t_signal]))"
  by (auto simp: Let_def quantity_rmul_def quantity_sub_def new_calls_def
      execute_buy_order_def execute_sell_order_def split: sum.splits)

text \<open>
  The first scenario of the specification: one DOGE remaining, rate 0.001, a market buy at
  the current price 0.07. The commission is 0.001 DOGE and the net quantity 0.999 DOGE.
\<close>

theorem commission_and_net_quantity_witness:
  "buy_filled sample_env
      (order (sample_world (sample_order (Some BUY) MARKET (7 / 100) (7 / 100)))) (7 / 100) True
      = Return (Some \<lparr>size' = 1, instrument = DOGE\<rparr>)
 \<and> \<not> (1 / 1000 :: rat) < 10 powi (- 8)
 \<and> new_calls (sample_world (sample_order (Some BUY) MARKET (7 / 100) (7 / 100)))
      (snd (execute_buy_order sample_env
         (sample_world (sample_order (Some BUY) MARKET (7 / 100) (7 / 100)))
         (7 / 100) (sample_options (1 / 1000)) sample_clock True))
    = [WalletTransfer \<lparr>balance = 100, locked = 1\<rparr> \<lparr>balance = 50, locked = 0\<rparr>
         \<lparr>size' = 999 / 1000, instrument = DOGE\<rparr>
         \<lparr>size' = 1 / 1000, instrument = DOGE\<rparr> ''DOGE/USDT'' ''BUY'' True]"
  using commission_and_net_quantity
      [where w = "sample_world (sample_order (Some BUY) MARKET (7 / 100) (7 / 100))"
         and env = sample_env and current_price = "7 / 100"
         and options = "sample_options (1 / 1000)" and clock = sample_clock
         and t_signal = True and filled = "\<lparr>size' = 1, instrument = DOGE\<rparr>"]
  by (simp add: Let_def fill_defs sample_defs)

subsection \<open>Side routing\<close>

text \<open>
  Claim C5. Every transfer that a call of \<open>execute_order\<close> performs has the base wallet as
  its source and the quote wallet as its target when the order is a buy, and the quote
  wallet as its source and the base wallet as its target when the order is a sell; an
  order that is neither performs no transfer.
\<close>

theorem transfer_side_routing:
  assumes "execute_order env w current_price options clock t_signal = (out, w')"
    and "WalletTransfer s g q cm p r ts \<in> set (new_calls w w')"
  shows "(is_buy (order w) \<or> is_sell (order w))
       \<and> (is_buy (order w) \<longrightarrow> s = base_wallet w \<and> g = quote_wallet w \<and> r = ''BUY'')
       \<and> (is_sell (order w) \<longrightarrow> s = quote_wallet w \<and> g = base_wallet w \<and> r = ''SELL'')"
  using assms
  by (auto simp: exec_defs new_calls_def is_buy_def is_sell_def
      split: outcome.splits option.splits sum.splits if_splits prod.splits)

text \<open>The limit sell of the sample: the transfer goes from the quote wallet to the base
  wallet.\<close>

theorem transfer_side_routing_witness:
  "is_sell (order (sample_world (sample_order (Some SELL) LIMIT (7 / 100) (6 / 100))))
 \<and> WalletTransfer \<lparr>balance = 50, locked = 0\<rparr> \<lparr>balance = 100, locked = 1\<rparr>
      \<lparr>size' = 9996 / 10000, instrument = DOGE\<rparr>
      \<lparr>size' = 4 / 10000, instrument = DOGE\<rparr> ''DOGE/USDT'' ''SELL'' True
    \<in> set (new_calls (sample_world (sample_order (Some SELL) LIMIT (7 / 100) (6 / 100)))
         (snd (execute_order sample_env
            (sample_world (sample_order (Some SELL) LIMIT (7 / 100) (6 / 100)))
            (7 / 100) (sample_options (4 / 10000)) sample_clock True)))
 \<and> quote_wallet (sample_world (sample_order (Some SELL) LIMIT (7 / 100) (6 / 100))) = \<lparr>balance = 50, locked = 0\<rparr>
 \<and> base_wallet (sample_world (sample_order (Some SELL) LIMIT (7 / 100) (6 / 100))) = \<lparr>balance = 100, locked = 1\<rparr>"
  using transfer_side_routing
      [where w = "sample_world (sample_order (Some SELL) LIMIT (7 / 100) (6 / 100))"
         and env = sample_env and current_price = "7 / 100"
         and options = "sample_options (4 / 10000)" and clock = sample_clock
         and t_signal = True
         and s = "\<lparr>balance = 50, locked = 0\<rparr>"
         and g = "\<lparr>balance = 100, locked = 1\<rparr>" and q = "\<lparr>size' = 9996 / 10000, instrument = DOGE\<rparr>"
         and cm = "\<lparr>size' = 4 / 10000, instrument = DOGE\<rparr>"
         and p = "''DOGE/USDT''" and r = "''SELL''" and ts = True,
       OF sample_sell_limit_run]
  by (simp add: exec_defs fill_defs sample_defs)

subsection \<open>No trade, no transfer\<close>




subsection \<open>The fill of a sell\<close>

text \<open>
  Claim C7. For an eligible sell order, market or limit, the filled quantity is the
  remaining amount of the order converted into the terms of the pair, with no scaling:
  a market order is always eligible, a limit order is when its chosen price is at most
  the current price, and whenever \<open>execute_sell_order\<close> computes a filled quantity it is
  this one.
\<close>

theorem sell_fill_unscaled:
  "(type ord = MARKET \<longrightarrow>
      sell_filled env ord current_price t_signal
        = Return (Some (contain env (remaining ord) (Order.exchange_pair ord) t_signal)))
 \<and> (type ord = LIMIT \<and> chosen_price ord t_signal \<le> current_price \<longrightarrow>
      sell_filled env ord current_price t_signal
        = Return (Some (contain env (remaining ord) (Order.exchange_pair ord) t_signal)))
 \<and> (\<forall>filled. sell_filled env ord current_price t_signal = Return (Some filled) \<longrightarrow>
      filled = contain env (remaining ord) (Order.exchange_pair ord) t_signal)"
  by (auto simp add: sell_filled_cases)

text \<open>A market sell at 0.07 when the current price is 0.14 fills the whole remaining DOGE;
  the same order on the buy side fills half of it.\<close>

theorem sell_fill_unscaled_witness:
  "type (sample_order (Some SELL) MARKET (7 / 100) (7 / 100)) = MARKET
 \<and> sell_filled sample_env (sample_order (Some SELL) MARKET (7 / 100) (7 / 100)) (14 / 100) True
      = Return (Some \<lparr>size' = 1, instrument = DOGE\<rparr>)
 \<and> buy_filled sample_env (sample_order (Some SELL) MARKET (7 / 100) (7 / 100)) (14 / 100) True
      = Return (Some \<lparr>size' = 1 / 2, instrument = DOGE\<rparr>)"
  using sell_fill_unscaled
      [where ord = "sample_order (Some SELL) MARKET (7 / 100) (7 / 100)"
         and env = sample_env and current_price = "14 / 100" and t_signal = True]
  by (simp add: fill_defs sample_defs)

subsection \<open>The trade record\<close>

text \<open>
  Claim C8. An execution succeeds when the call reaches a side procedure, the order is
  eligible with filled quantity \<open>filled\<close>, the precision guard lets it through and the
  transfer returns. Then \<open>execute_order\<close> returns one trade: it has the id of the order,
  the step of the clock, the exchange pair of the order, the side BUY for a buy and SELL
  for a sell, the type of the order, and the quantity, price and commission of the record
  that the transfer returned, not those it was asked for. Conversely, every trade that
  \<open>execute_order\<close> returns is of this kind: the call has made exactly one external call,
  a transfer that returned, and the trade carries these values.
\<close>

theorem trade_from_realized_transfer:
  "((t_signal \<or> (\<exists>n. debug_units env (order w) = Return n))
      \<and> is_buy (order w)
      \<and> buy_filled env (order w) current_price t_signal = Return (Some filled)
      \<and> \<not> size' (quantity_rmul (ExchangeOptions.commission options) filled)
            < 10 powi (- precision (instrument (quantity_sub filled
                (quantity_rmul (ExchangeOptions.commission options) filled))))
      \<and> transfer env (base_wallet w) (quote_wallet w)
            (quantity_sub filled (quantity_rmul (ExchangeOptions.commission options) filled))
            (quantity_rmul (ExchangeOptions.commission options) filled)
            (Order.exchange_pair (order w)) ''BUY'' t_signal = Inr (tf, s', g')
    \<longrightarrow> execute_order env w current_price options clock t_signal =
          (Return (Some \<lparr>order_id = id' (order w),
                         step = Clock.step clock,
                         exchange_pair = Order.exchange_pair (order w),
                         side = BUY,
                         trade_type = type (order w),
                         quantity = Transfer.quantity tf,
                         price = Transfer.price tf,
                         commission = Transfer.commission tf\<rparr>),
           w\<lparr>base_wallet := s', quote_wallet := g',
             calls := calls w @ [WalletTransfer (base_wallet w) (quote_wallet w)
               (quantity_sub filled (quantity_rmul (ExchangeOptions.commission options) filled))
               (quantity_rmul (ExchangeOptions.commission options) filled)
               (Order.exchange_pair (order w)) ''BUY'' t_signal]\<rparr>))
 \<and> ((t_signal \<or> (\<exists>n. debug_units env (order w) = Return n))
      \<and> is_sell (order w)
      \<and> sell_filled env (order w) current_price t_signal = Return (Some filled)
      \<and> \<not> size' (quantity_rmul (ExchangeOptions.commission options) filled)
            < 10 powi (- precision (instrument (quantity_sub filled
                (quantity_rmul (ExchangeOptions.commission options) filled))))
      \<and> transfer env (quote_wallet w) (base_wallet w)
            (quantity_sub filled (quantity_rmul (ExchangeOptions.commission options) filled))
            (quantity_rmul (ExchangeOptions.commission options) filled)
            (Order.exchange_pair (order w)) ''SELL'' t_signal = Inr (tf, s', g')
    \<longrightarrow> execute_order env w current_price options clock t_signal =
          (Return (Some \<lparr>order_id = id' (order w),
                         step = Clock.step clock,
                         exchange_pair = Order.exchange_pair (order w),
                         side = SELL,
                         trade_type = type (order w),
                         quantity = Transfer.quantity tf,
                         price = Transfer.price tf,
                         commission = Transfer.commission tf\<rparr>),
           w\<lparr>quote_wallet := s', base_wallet := g',
             calls := calls w @ [WalletTransfer (quote_wallet w) (base_wallet w)
               (quantity_sub filled (quantity_rmul (ExchangeOptions.commission options) filled))
               (quantity_rmul (ExchangeOptions.commission options) filled)
               (Order.exchange_pair (order w)) ''SELL'' t_signal]\<rparr>))
 \<and> (execute_order env w current_price options clock t_signal = (Return (Some tr), w')
    \<longrightarrow> order_id tr = id' (order w)
       \<and> Trade.step tr = Clock.step clock
       \<and> Trade.exchange_pair tr = Order.exchange_pair (order w)
       \<and> Order.side (order w) = Some (Trade.side tr)
       \<and> trade_type tr = type (order w)
       \<and> (\<exists>s g q cm r tf s' g'.
            new_calls w w' = [WalletTransfer s g q cm (Order.exchange_pair (order w)) r t_signal]
          \<and> transfer env s g q cm (Order.exchange_pair (order w)) r t_signal = Inr (tf, s', g')
          \<and> Trade.quantity tr = Transfer.quantity tf
          \<and> Trade.price tr = Transfer.price tf
          \<and> Trade.commission tr = Transfer.commission tf))"
proof (intro conjI impI)
  assume a: "(t_signal \<or> (\<exists>n. debug_units env (order w) = Return n))
      \<and> is_buy (order w)
      \<and> buy_filled env (order w) current_price t_signal = Return (Some filled)
      \<and> \<not> size' (quantity_rmul (ExchangeOptions.commission options) filled)
            < 10 powi (- precision (instrument (quantity_sub filled
                (quantity_rmul (ExchangeOptions.commission options) filled))))
      \<and> transfer env (base_wallet w) (quote_wallet w)
            (quantity_sub filled (quantity_rmul (ExchangeOptions.commission options) filled))
            (quantity_rmul (ExchangeOptions.commission options) filled)
            (Order.exchange_pair (order w)) ''BUY'' t_signal = Inr (tf, s', g')"
  then have "execute_order env w current_price options clock t_signal
               = execute_buy_order env w current_price options clock t_signal"
    by (simp add: execute_order_dispatch dispatch_buy)
  with a show "execute_order env w current_price options clock t_signal =
          (Return (Some \<lparr>order_id = id' (order w),
                         step = Clock.step clock,
                         exchange_pair = Order.exchange_pair (order w),
                         side = BUY,
                         trade_type = type (order w),
                         quantity = Transfer.quantity tf,
                         price = Transfer.price tf,
                         commission = Transfer.commission tf\<rparr>),
           w\<lparr>base_wallet := s', quote_wallet := g',
             calls := calls w @ [WalletTransfer (base_wallet w) (quote_wallet w)
               (quantity_sub filled (quantity_rmul (ExchangeOptions.commission options) filled))
               (quantity_rmul (ExchangeOptions.commission options) filled)
               (Order.exchange_pair (order w)) ''BUY'' t_signal]\<rparr>)"
    by (simp add: execute_buy_order_filled Let_def)
next
  assume a: "(t_signal \<or> (\<exists>n. debug_units env (order w) = Return n))
      \<and> is_sell (order w)
      \<and> sell_filled env (order w) current_price t_signal = Return (Some filled)
      \<and> \<not> size' (quantity_rmul (ExchangeOptions.commission options) filled)
            < 10 powi (- precision (instrument (quantity_sub filled
                (quantity_rmul (ExchangeOptions.commission options) filled))))
      \<and> transfer env (quote_wallet w) (base_wallet w)
            (quantity_sub filled (quantity_rmul (ExchangeOptions.commission options) filled))
            (quantity_rmul (ExchangeOptions.commission options) filled)
            (Order.exchange_pair (order w)) ''SELL'' t_signal = Inr (tf, s', g')"
  then have "execute_order env w current_price options clock t_signal
               = execute_sell_order env w current_price options clock t_signal"
    by (simp add: execute_order_dispatch dispatch_sell)
  with a show "execute_order env w current_price options clock t_signal =
          (Return (Some \<lparr>order_id = id' (order w),
                         step = Clock.step clock,
                         exchange_pair = Order.exchange_pair (order w),
                         side = SELL,
                         trade_type = type (order w),
                         quantity = Transfer.quantity tf,
                         price = Transfer.price tf,
                         commission = Transfer.commission tf\<rparr>),
           w\<lparr>quote_wallet := s', base_wallet := g',
             calls := calls w @ [WalletTransfer (quote_wallet w) (base_wallet w)
               (quantity_sub filled (quantity_rmul (ExchangeOptions.commission options) filled))
               (quantity_rmul (ExchangeOptions.commission options) filled)
               (Order.exchange_pair (order w)) ''SELL'' t_signal]\<rparr>)"
    by (simp add: execute_sell_order_filled Let_def)
next
  assume "execute_order env w current_price options clock t_signal = (Return (Some tr), w')"
  then show "order_id tr = id' (order w)"
    and "Trade.step tr = Clock.step clock"
    and "Trade.exchange_pair tr = Order.exchange_pair (order w)"
    and "Order.side (order w) = Some (Trade.side tr)"
    and "trade_type tr = type (order w)"
    and "\<exists>s g q cm r tf s' g'.
            new_calls w w' = [WalletTransfer s g q cm (Order.exchange_pair (order w)) r t_signal]
          \<and> transfer env s g q cm (Order.exchange_pair (order w)) r t_signal = Inr (tf, s', g')
          \<and> Trade.quantity tr = Transfer.quantity tf
          \<and> Trade.price tr = Transfer.price tf
          \<and> Trade.commission tr = Transfer.commission tf"
    by (auto simp: exec_defs new_calls_def is_buy_def is_sell_def
        split: outcome.splits option.splits sum.splits if_splits prod.splits)
qed

text \<open>
  The limit sell of the sample, eligible at the current price 0.07 with the rate 0.0004:
  the guard lets it through, the transfer from the quote wallet to the base wallet
  returns, and the call returns the SELL trade built from the record of the transfer.
\<close>

theorem trade_from_realized_transfer_witness:
  "is_sell (order (sample_world (sample_order (Some SELL) LIMIT (7 / 100) (6 / 100))))
 \<and> sell_filled sample_env
      (order (sample_world (sample_order (Some SELL) LIMIT (7 / 100) (6 / 100)))) (7 / 100) True
      = Return (Some \<lparr>size' = 1, instrument = DOGE\<rparr>)
 \<and> transfer sample_env \<lparr>balance = 50, locked = 0\<rparr> \<lparr>balance = 100, locked = 1\<rparr>
      \<lparr>size' = 9996 / 10000, instrument = DOGE\<rparr> \<lparr>size' = 4 / 10000, instrument = DOGE\<rparr>
      ''DOGE/USDT'' ''SELL'' True
      = Inr (\<lparr>Transfer.quantity = \<lparr>size' = 9996 / 10000, instrument = DOGE\<rparr>,
              Transfer.price = 7 / 100,
              Transfer.commission = \<lparr>size' = 4 / 10000, instrument = DOGE\<rparr>\<rparr>,
             \<lparr>balance = 49, locked = 0\<rparr>, \<lparr>balance = 100 + 9996 / 10000, locked = 1\<rparr>)
 \<and> execute_order sample_env (sample_world (sample_order (Some SELL) LIMIT (7 / 100) (6 / 100)))
     (7 / 100) (sample_options (4 / 10000)) sample_clock True =
   (Return (Some \<lparr>order_id = ''order-1'', step = 5, exchange_pair = ''DOGE/USDT'',
       side = SELL, trade_type = LIMIT,
       quantity = \<lparr>size' = 9996 / 10000, instrument = DOGE\<rparr>, price = 7 / 100,
       commission = \<lparr>size' = 4 / 10000, instrument = DOGE\<rparr>\<rparr>),
    \<lparr>order = sample_order (Some SELL) LIMIT (7 / 100) (6 / 100),
     base_wallet = \<lparr>balance = 100 + 9996 / 10000, locked = 1\<rparr>,
     quote_wallet = \<lparr>balance = 49, locked = 0\<rparr>,
     calls = [WalletTransfer \<lparr>balance = 50, locked = 0\<rparr> \<lparr>balance = 100, locked = 1\<rparr>
                \<lparr>size' = 9996 / 10000, instrument = DOGE\<rparr>
                \<lparr>size' = 4 / 10000, instrument = DOGE\<rparr> ''DOGE/USDT'' ''SELL'' True]\<rparr>)"
  using trade_from_realized_transfer
      [where w = "sample_world (sample_order (Some SELL) LIMIT (7 / 100) (6 / 100))"
         and env = sample_env and current_price = "7 / 100"
         and options = "sample_options (4 / 10000)" and clock = sample_clock
         and t_signal = True and filled = "\<lparr>size' = 1, instrument = DOGE\<rparr>"]
  by (simp add: exec_defs fill_defs sample_defs)

end
